theory Spec2Isabelle
  imports Complex_Main
begin

section \<open>JavaScript values and errors\<close>

text \<open>
  The flight management system (class \<open>Fms\<close>) is JavaScript. Its numbers are modelled
  as \<open>real\<close>: the functions below only compare them with a sentinel and hand them on.
  An exception is a value of type \<open>error\<close>. A method that only reads returns
  \<open>error + 'a\<close>; a method that mutates the object returns the exception it raised, if
  any, together with the state it left behind, since a JavaScript exception does not
  undo the assignments made before it.
\<close>

type_synonym number = real

datatype error =
    TypeError string
  | MalformedRouteError
  | LookupError
  | AssertionError

text \<open>What the engine raises when a property of \<open>undefined\<close> is read or called.\<close>

definition undefinedRead :: error where
  "undefinedRead = TypeError ''Cannot read property of undefined''"

text \<open>
  Reading an array element: \<open>xs[i]\<close> is \<open>undefined\<close> (here \<open>None\<close>) outside the
  array, and \<open>_isNil\<close> holds of \<open>undefined\<close> and \<open>null\<close>.
\<close>

definition jsIndex :: "'a list \<Rightarrow> int \<Rightarrow> 'a option" where
  "jsIndex xs i = (if 0 \<le> i \<and> i < int (length xs) then Some (xs ! nat i) else None)"

definition isNil :: "'a option \<Rightarrow> bool" where
  "isNil v = (case v of None \<Rightarrow> True | Some _ \<Rightarrow> False)"

text \<open>
  The values an initialization payload can be: the JSON-like part of JavaScript's
  values. An object is its list of own enumerable properties.
\<close>

datatype jsValue =
    JsUndefined
  | JsNull
  | JsBoolean bool
  | JsNumber number
  | JsString string
  | JsArray "jsValue list"
  | JsObject "(string \<times> jsValue) list"

text \<open>
  lodash \<open>_isObject\<close> holds of objects and arrays (and of functions, which are not
  modelled), of no primitive and not of \<open>null\<close>. \<open>_isEmpty\<close> holds of an object
  without own enumerable properties, of an array or string of length 0, and of every
  other primitive, \<open>null\<close> and \<open>undefined\<close>.
\<close>

fun isObject :: "jsValue \<Rightarrow> bool" where
  "isObject (JsArray xs) = True"
| "isObject (JsObject ps) = True"
| "isObject v = False"

fun isEmpty :: "jsValue \<Rightarrow> bool" where
  "isEmpty (JsArray xs) = (xs = [])"
| "isEmpty (JsObject ps) = (ps = [])"
| "isEmpty (JsString s) = (s = [])"
| "isEmpty v = True"

text \<open>Reading a named property: \<open>undefined\<close> when the value has no such property.\<close>

fun getProperty :: "jsValue \<Rightarrow> string \<Rightarrow> jsValue" where
  "getProperty (JsObject ps) k = (case map_of ps k of None \<Rightarrow> JsUndefined | Some v \<Rightarrow> v)"
| "getProperty v k = JsUndefined"


fun mapThrowing :: "('a \<Rightarrow> error + 'b) \<Rightarrow> 'a list \<Rightarrow> error + 'b list" where
  "mapThrowing g [] = Inr []"
| "mapThrowing g (x # xs) =
     (case g x of
        Inl e \<Rightarrow> Inl e
      | Inr y \<Rightarrow> (case mapThrowing g xs of Inl e \<Rightarrow> Inl e | Inr ys \<Rightarrow> Inr (y # ys)))"

text \<open>
  \<open>String.prototype.toLowerCase\<close> is the engine's: it lowers every letter of Unicode
  that has a lowercase form. The model does not define it. Every function that calls
  it takes it as its first argument \<open>toLowerCase\<close>, and what is proved of such a
  function holds for whatever \<open>toLowerCase\<close> does to a string.
\<close>

type_synonym lowerCasing = "string \<Rightarrow> string"

text \<open>
  lodash \<open>_findIndex(array, predicate)\<close>: the index of the first element the predicate
  holds of, and \<open>-1\<close> when there is none. \<open>_drop(array, n)\<close> is the array without its
  first \<open>n\<close> elements.
\<close>

fun findIndexFrom :: "('a \<Rightarrow> bool) \<Rightarrow> 'a list \<Rightarrow> int \<Rightarrow> int" where
  "findIndexFrom P [] i = -1"
| "findIndexFrom P (x # xs) i = (if P x then i else findIndexFrom P xs (i + 1))"

definition findIndex :: "'a list \<Rightarrow> ('a \<Rightarrow> bool) \<Rightarrow> int" where
  "findIndex xs P = findIndexFrom P xs 0"

definition lodashDrop :: "'a list \<Rightarrow> nat \<Rightarrow> 'a list" where
  "lodashDrop xs n = drop n xs"

section \<open>Waypoints and legs\<close>

text \<open>
  Modelled from the spec: the class \<open>WaypointModel\<close> is not among the sources. A
  waypoint entry has a lowercase name, a position (an array of coordinates, or
  \<open>null\<close>, here \<open>None\<close>, when unresolved), an altitude and a speed restriction with
  the sentinel \<open>-1\<close> for none, and a hold flag.
\<close>

record waypoint =
  name :: string
  position :: "number list option"
  altitudeRestriction :: number
  speedRestriction :: number
  isHold :: bool

text \<open>
  Modelled from the spec: the class \<open>LegModel\<close> is not among the sources. A leg is an
  ordered sequence of waypoint entries with a cursor \<open>currentIndex\<close> that starts at 0,
  and a route string.
\<close>

record leg =
  waypointCollection :: "waypoint list"
  currentIndex :: int
  routeString :: string

text \<open>
  Modelled from the spec: \<open>LegModel.hasNextWaypoint()\<close> is true iff
  \<open>currentIndex + 1\<close> is a valid index.
\<close>

definition LegModel_hasNextWaypoint :: "leg \<Rightarrow> bool" where
  "LegModel_hasNextWaypoint l =
     (0 \<le> currentIndex l + 1 \<and> currentIndex l + 1 < int (length (waypointCollection l)))"

text \<open>
  Modelled from the spec: \<open>LegModel.currentWaypoint\<close> is the entry at \<open>currentIndex\<close>;
  outside the collection the array read gives \<open>undefined\<close>.
\<close>

definition LegModel_currentWaypoint :: "leg \<Rightarrow> waypoint option" where
  "LegModel_currentWaypoint l = jsIndex (waypointCollection l) (currentIndex l)"

text \<open>
  Modelled from the spec: \<open>LegModel.nextWaypoint\<close> is the entry at \<open>currentIndex + 1\<close>,
  valid only when \<open>hasNextWaypoint()\<close> is true; otherwise the array read is out of
  range and gives \<open>undefined\<close>.
\<close>

definition LegModel_nextWaypoint :: "leg \<Rightarrow> waypoint option" where
  "LegModel_nextWaypoint l = jsIndex (waypointCollection l) (currentIndex l + 1)"

text \<open>
  Modelled from the spec: \<open>LegModel.moveToNextWaypoint()\<close> advances \<open>currentIndex\<close> by
  one. Its precondition is \<open>hasNextWaypoint()\<close>; otherwise it is "a no-op or fatal
  assertion". The spec leaves that choice open, so it is a parameter of the model.
\<close>

datatype exhaustedPolicy = NoOp | FatalAssertion

definition LegModel_moveToNextWaypoint :: "exhaustedPolicy \<Rightarrow> leg \<Rightarrow> error + leg" where
  "LegModel_moveToNextWaypoint policy l =
     (if LegModel_hasNextWaypoint l then Inr (l\<lparr>currentIndex := currentIndex l + 1\<rparr>)
      else (case policy of NoOp \<Rightarrow> Inr l | FatalAssertion \<Rightarrow> Inl AssertionError))"

text \<open>
  Modelled from the spec: \<open>LegModel.skipToWaypointAtIndex(i)\<close> sets \<open>currentIndex = i\<close>
  directly.
\<close>

definition LegModel_skipToWaypointAtIndex :: "int \<Rightarrow> leg \<Rightarrow> leg" where
  "LegModel_skipToWaypointAtIndex i l = l\<lparr>currentIndex := i\<rparr>"

text \<open>
  Modelled from the spec: \<open>LegModel.destroy()\<close> releases the references to the
  waypoint data.
\<close>

definition LegModel_destroy :: "leg \<Rightarrow> leg" where
  "LegModel_destroy l = l\<lparr>waypointCollection := []\<rparr>"

section \<open>The mode controller and the aircraft type\<close>

text \<open>
  Modelled from the spec: \<open>ModeController\<close> and the constants \<open>MCP_MODE\<close> are not among
  the sources. For each axis the controller keeps a mode and a value. The spec names
  the altitude modes HOLD and VNAV "and others", the heading modes HOLD and LNAV and
  the speed mode HOLD; the property is an untyped field, so every axis also has a
  constructor for any other mode name.
\<close>

datatype altitudeModeName = ALTITUDE_HOLD | ALTITUDE_VNAV | ALTITUDE_OTHER string
datatype headingModeName = HEADING_HOLD | HEADING_LNAV | HEADING_OTHER string
datatype speedModeName = SPEED_HOLD | SPEED_OTHER string

record ModeController =
  altitudeMode :: altitudeModeName
  altitude :: number
  headingMode :: headingModeName
  heading :: number
  speedMode :: speedModeName
  speed :: number

text \<open>
  Modelled from the spec: the class \<open>AircraftTypeDefinitionModel\<close> of the
  constructor's third argument is not among the sources. The aircraft type supplies
  the service ceiling (the property \<open>ceiling\<close>, which \<open>AircraftModel.js\<close> sets in
  \<open>parse\<close>) and the cruise speed (\<open>speed.cruise\<close>), both numbers.
\<close>

record AircraftTypeDefinitionModel =
  serviceCeiling :: number
  cruiseSpeed :: number

section \<open>The flight management system\<close>

text \<open>
  The fields of \<open>Fms\<close>. The navigation library is only handed on to the leg
  constructor, so its type is a parameter. \<open>currentPhase\<close> holds whatever the payload's
  \<open>category\<close> property was.
\<close>

record 'nav fms =
  navigationLibrary :: 'nav
  modeController :: ModeController
  aircraftTypeDefinition :: AircraftTypeDefinitionModel
  runwayName :: string
  legCollection :: "leg list"
  currentPhase :: jsValue

text \<open>\<open>get currentLeg()\<close>: \<open>this.legCollection[0]\<close>, \<open>undefined\<close> on an empty collection.\<close>

definition currentLeg :: "'nav fms \<Rightarrow> leg option" where
  "currentLeg f = jsIndex (legCollection f) 0"

text \<open>
  \<open>get currentWaypoint()\<close>: \<open>this.currentLeg.currentWaypoint\<close>. Reading the property of
  an undefined leg raises; a leg whose cursor is outside its collection gives
  \<open>undefined\<close>.
\<close>

definition currentWaypoint :: "'nav fms \<Rightarrow> error + waypoint option" where
  "currentWaypoint f =
     (case currentLeg f of
        None \<Rightarrow> Inl undefinedRead
      | Some l \<Rightarrow> Inr (LegModel_currentWaypoint l))"

text \<open>\<open>hasNextWaypoint()\<close>, lines 339 to 341.\<close>

definition hasNextWaypoint :: "'nav fms \<Rightarrow> error + bool" where
  "hasNextWaypoint f =
     (case currentLeg f of
        None \<Rightarrow> Inl undefinedRead
      | Some l \<Rightarrow> Inr (LegModel_hasNextWaypoint l \<or> \<not> isNil (jsIndex (legCollection f) 1)))"

text \<open>
  \<open>_moveToNextLeg()\<close>: destroys the current leg, then \<open>legCollection.shift()\<close> removes it
  from the array.
\<close>

definition moveToNextLeg :: "'nav fms \<Rightarrow> error option \<times> 'nav fms" where
  "moveToNextLeg f =
     (case currentLeg f of
        None \<Rightarrow> (Some undefinedRead, f)
      | Some l \<Rightarrow>
          (let f1 = f\<lparr>legCollection := (legCollection f)[0 := LegModel_destroy l]\<rparr>
           in (None, f1\<lparr>legCollection := tl (legCollection f1)\<rparr>)))"

text \<open>\<open>_moveToNextWaypointInLeg()\<close>: \<open>this.currentLeg.moveToNextWaypoint()\<close>.\<close>

definition moveToNextWaypointInLeg ::
  "exhaustedPolicy \<Rightarrow> 'nav fms \<Rightarrow> error option \<times> 'nav fms" where
  "moveToNextWaypointInLeg policy f =
     (case currentLeg f of
        None \<Rightarrow> (Some undefinedRead, f)
      | Some l \<Rightarrow>
          (case LegModel_moveToNextWaypoint policy l of
             Inl e \<Rightarrow> (Some e, f)
           | Inr l' \<Rightarrow> (None, f\<lparr>legCollection := (legCollection f)[0 := l']\<rparr>)))"

text \<open>\<open>nextWaypoint()\<close>, lines 352 to 360.\<close>

definition nextWaypoint ::
  "exhaustedPolicy \<Rightarrow> 'nav fms \<Rightarrow> error option \<times> 'nav fms" where
  "nextWaypoint policy f =
     (case currentLeg f of
        None \<Rightarrow> (Some undefinedRead, f)
      | Some l \<Rightarrow>
          (case (if \<not> LegModel_hasNextWaypoint l then moveToNextLeg f else (None, f)) of
             (Some e, f1) \<Rightarrow> (Some e, f1)
           | (None, f1) \<Rightarrow> moveToNextWaypointInLeg policy f1))"

text \<open>
  \<open>_findLegAndWaypointIndexForWaypointName(waypointName)\<close>, lines 463 to 480: the
  \<open>for\<close> loop over the leg indices, with its \<open>break\<close> at the first leg in which
  \<open>_findIndex\<close> finds the lowercased name.
\<close>

function findLegLoop ::
  "lowerCasing \<Rightarrow> string \<Rightarrow> leg list \<Rightarrow> nat \<Rightarrow> int \<Rightarrow> nat \<times> int" where
  "findLegLoop toLowerCase waypointName legs legIndex waypointIndex =
     (if legIndex < length legs then
        (let legModel = legs ! legIndex;
             waypointIndex' = findIndex (waypointCollection legModel)
                                (\<lambda>w. name w = toLowerCase waypointName)
         in if waypointIndex' \<noteq> -1 then (legIndex, waypointIndex')
            else findLegLoop toLowerCase waypointName legs (legIndex + 1) waypointIndex')
      else (legIndex, waypointIndex))"
  by pat_completeness auto
termination
  by (relation "measure (\<lambda>(toLowerCase, waypointName, legs, legIndex, waypointIndex).
        length legs - legIndex)") auto

declare findLegLoop.simps [simp del]

definition findLegAndWaypointIndexForWaypointName ::
  "lowerCasing \<Rightarrow> string \<Rightarrow> 'nav fms \<Rightarrow> nat \<times> int" where
  "findLegAndWaypointIndexForWaypointName toLowerCase waypointName f =
     findLegLoop toLowerCase waypointName (legCollection f) 0 (-1)"

text \<open>
  \<open>skipToWaypoint(waypointName)\<close>, lines 371 to 377: the assignment to
  \<open>legCollection\<close> comes first, the call on the current leg second.
\<close>

definition skipToWaypoint ::
  "lowerCasing \<Rightarrow> string \<Rightarrow> 'nav fms \<Rightarrow> error option \<times> 'nav fms" where
  "skipToWaypoint toLowerCase waypointName f =
     (case findLegAndWaypointIndexForWaypointName toLowerCase waypointName f of
        (legIndex, waypointIndex) \<Rightarrow>
          (let f1 = f\<lparr>legCollection := lodashDrop (legCollection f) legIndex\<rparr>
           in case currentLeg f1 of
                None \<Rightarrow> (Some undefinedRead, f1)
              | Some l \<Rightarrow>
                  (None, f1\<lparr>legCollection :=
                     (legCollection f1)[0 := LegModel_skipToWaypointAtIndex waypointIndex l]\<rparr>)))"

text \<open>
  \<open>getNextWaypointPosition()\<close>, lines 388 to 402. Line 395 reads
  \<open>this.currentLeg.nextWaypoint.position\<close> before line 397 asks whether the current leg
  has a next waypoint. The result is an array of coordinates or \<open>null\<close> (\<open>None\<close>).
\<close>

definition getNextWaypointPosition :: "'nav fms \<Rightarrow> error + number list option" where
  "getNextWaypointPosition f =
     (case hasNextWaypoint f of
        Inl e \<Rightarrow> Inl e
      | Inr False \<Rightarrow> Inr None
      | Inr True \<Rightarrow>
          (case currentLeg f of
             None \<Rightarrow> Inl undefinedRead
           | Some l \<Rightarrow>
               (case LegModel_nextWaypoint l of
                  None \<Rightarrow> Inl undefinedRead
                | Some nw \<Rightarrow>
                    (let waypointPosition = position nw
                     in if \<not> LegModel_hasNextWaypoint l then
                          (case jsIndex (legCollection f) 1 of
                             None \<Rightarrow> Inl undefinedRead
                           | Some l1 \<Rightarrow>
                               (case LegModel_currentWaypoint l1 of
                                  None \<Rightarrow> Inl undefinedRead
                                | Some w \<Rightarrow> Inr (position w)))
                        else Inr waypointPosition))))"

text \<open>\<open>getAltitude()\<close>, lines 157 to 169.\<close>

definition getAltitude :: "'nav fms \<Rightarrow> error + number" where
  "getAltitude f =
     (let altitude0 = serviceCeiling (aircraftTypeDefinition f)
      in case currentWaypoint f of
           Inl e \<Rightarrow> Inl e
         | Inr None \<Rightarrow> Inl undefinedRead
         | Inr (Some w) \<Rightarrow>
             (let altitude1 = (if altitudeRestriction w \<noteq> -1 then altitudeRestriction w
                               else altitude0);
                  altitude2 = (if altitudeMode (modeController f) = ALTITUDE_HOLD
                               then altitude (modeController f) else altitude1)
              in Inr altitude2))"

text \<open>\<open>getHeading()\<close>, lines 180 to 188.\<close>

definition getHeading :: "'nav fms \<Rightarrow> number" where
  "getHeading f =
     (let heading0 = -999;
          heading1 = (if headingMode (modeController f) = HEADING_HOLD
                      then heading (modeController f) else heading0)
      in heading1)"

section \<open>Route strings and construction\<close>

text \<open>
  Modelled from the spec: \<open>routeStringFormatHelper\<close> is not among the sources. The
  route string is split on the two-character delimiter \<open>..\<close> as \<open>String.split\<close>
  does, from the left. Each segment is a bare fix name or a hold-fix marker (no dot
  inside) or a three-part expression \<open>entry.procedure.exit\<close>; parsing fails with
  \<open>MalformedRouteError\<close> when the string is empty or a segment has none of these
  forms. A route that is not a string does not parse either.
\<close>

fun splitSegments :: "string \<Rightarrow> string list" where
  "splitSegments [] = [[]]"
| "splitSegments [c] = [[c]]"
| "splitSegments (c # d # cs) =
     (if c = CHR ''.'' \<and> d = CHR ''.'' then [] # splitSegments cs
      else (case splitSegments (d # cs) of
              [] \<Rightarrow> [[c]]
            | seg # rest \<Rightarrow> (c # seg) # rest))"

text \<open>
  Modelled from the spec: the parts of a segment, split on the single dot of
  \<open>entry.procedure.exit\<close>.
\<close>

fun splitParts :: "string \<Rightarrow> string list" where
  "splitParts [] = [[]]"
| "splitParts (c # cs) =
     (if c = CHR ''.'' then [] # splitParts cs
      else (case splitParts cs of
              [] \<Rightarrow> [[c]]
            | part # rest \<Rightarrow> (c # part) # rest))"

text \<open>
  Modelled from the spec: a segment of a recognized form has one part (a bare fix
  name or a hold-fix marker) or three (\<open>entry.procedure.exit\<close>), none of them empty.
\<close>

definition isRecognizedSegment :: "string \<Rightarrow> bool" where
  "isRecognizedSegment seg =
     (let parts = splitParts seg
      in (length parts = 1 \<or> length parts = 3) \<and> list_all (\<lambda>p. p \<noteq> []) parts)"

text \<open>
  Modelled from the spec: \<open>routeStringFormatHelper(route)\<close>, the parser. It yields the
  segments in order or fails with \<open>MalformedRouteError\<close>.
\<close>

definition routeStringFormatHelper :: "jsValue \<Rightarrow> error + string list" where
  "routeStringFormatHelper route =
     (case route of
        JsString s \<Rightarrow>
          (if s = [] then Inl MalformedRouteError
           else if list_all isRecognizedSegment (splitSegments s) then Inr (splitSegments s)
           else Inl MalformedRouteError)
      | _ \<Rightarrow> Inl MalformedRouteError)"

text \<open>
  Modelled from the spec: the navigation data is not among the sources. Given a fix
  or procedure name with its context (the runway and the phase) it returns the
  ordered sequence of waypoint entries, or fails with a lookup error. It is the
  parameter \<open>resolve\<close> of the model, which is handed the segment; \<open>None\<close> is the
  lookup error.
\<close>

type_synonym 'nav navigationLookup =
  "string \<Rightarrow> string \<Rightarrow> jsValue \<Rightarrow> 'nav \<Rightarrow> waypoint list option"

text \<open>
  Modelled from the spec: \<open>LegModel.routeString\<close> is recomputed from the names of the
  leg, which are lowercase identifiers: a direct-fix leg renders as the bare fix name
  and a procedure leg as \<open>entryFix.procedureName.exitFix\<close>. The spec gives no rendering
  of its own for a hold-fix leg; it is rendered as its one-part marker.
\<close>

definition renderRouteString :: "lowerCasing \<Rightarrow> string \<Rightarrow> string" where
  "renderRouteString toLowerCase routeSegment =
     (case splitParts routeSegment of
        [fixName] \<Rightarrow> toLowerCase fixName
      | [entryFix, procedureName, exitFix] \<Rightarrow>
          toLowerCase entryFix @ ''.'' @ toLowerCase procedureName @ ''.'' @ toLowerCase exitFix
      | _ \<Rightarrow> toLowerCase routeSegment)"

text \<open>
  Modelled from the spec: the constructor of \<open>LegModel\<close>. A leg is created from a
  route-string segment plus the runway, the phase and the navigation data; its
  waypoints are what the navigation data resolves the segment to, its cursor starts
  at 0, and a failed lookup aborts the construction with \<open>LookupError\<close>.
\<close>

definition LegModel_new ::
  "lowerCasing \<Rightarrow> 'nav navigationLookup \<Rightarrow> string \<Rightarrow> string \<Rightarrow> jsValue \<Rightarrow> 'nav \<Rightarrow>
   error + leg" where
  "LegModel_new toLowerCase resolve routeSegment runway phase nav =
     (case resolve routeSegment runway phase nav of
        None \<Rightarrow> Inl LookupError
      | Some waypoints \<Rightarrow>
          Inr \<lparr>waypointCollection = waypoints, currentIndex = 0,
               routeString = renderRouteString toLowerCase routeSegment\<rparr>)"

text \<open>\<open>_buildInitialLegCollection(aircraftInitProps)\<close>, lines 416 to 424.\<close>

definition buildInitialLegCollection ::
  "lowerCasing \<Rightarrow> 'nav navigationLookup \<Rightarrow> jsValue \<Rightarrow> 'nav fms \<Rightarrow> error + leg list" where
  "buildInitialLegCollection toLowerCase resolve aircraftInitProps f =
     (let route = getProperty aircraftInitProps ''route''
      in case routeStringFormatHelper route of
           Inl e \<Rightarrow> Inl e
         | Inr routeStringSegments \<Rightarrow>
             mapThrowing
               (\<lambda>routeSegment. LegModel_new toLowerCase resolve routeSegment (runwayName f)
                                  (currentPhase f) (navigationLibrary f))
               routeStringSegments)"

text \<open>\<open>init(aircraftInitProps)\<close>, lines 220 to 223.\<close>

definition Fms_init ::
  "lowerCasing \<Rightarrow> 'nav navigationLookup \<Rightarrow> jsValue \<Rightarrow> 'nav fms \<Rightarrow> error + 'nav fms" where
  "Fms_init toLowerCase resolve aircraftInitProps f =
     (let f1 = f\<lparr>currentPhase := getProperty aircraftInitProps ''category''\<rparr>
      in case buildInitialLegCollection toLowerCase resolve aircraftInitProps f1 of
           Inl e \<Rightarrow> Inl e
         | Inr legs \<Rightarrow> Inr (f1\<lparr>legCollection := legs\<rparr>))"

text \<open>
  The constructor, lines 32 to 104. The guard of line 33 throws a \<open>TypeError\<close> with
  the message below. \<open>new ModeController(typeDefinitionModel)\<close> is the parameter
  \<open>newModeController\<close>; \<open>toLowerCase\<close> and \<open>resolve\<close> are handed on to the leg
  constructor. A constructor that throws leaves no object behind.
\<close>

definition invalidInitProps :: error where
  "invalidInitProps = TypeError ''Invalid aircraftInitProps passed to Fms''"

definition Fms_constructor ::
  "lowerCasing \<Rightarrow> (AircraftTypeDefinitionModel \<Rightarrow> ModeController) \<Rightarrow>
   'nav navigationLookup \<Rightarrow> jsValue \<Rightarrow> string \<Rightarrow> AircraftTypeDefinitionModel \<Rightarrow> 'nav \<Rightarrow>
   error + 'nav fms" where
  "Fms_constructor toLowerCase newModeController resolve aircraftInitProps
     initialRunwayAssignment typeDefinitionModel nav =
     (if \<not> isObject aircraftInitProps \<or> isEmpty aircraftInitProps then Inl invalidInitProps
      else Fms_init toLowerCase resolve aircraftInitProps
             \<lparr>navigationLibrary = nav,
              modeController = newModeController typeDefinitionModel,
              aircraftTypeDefinition = typeDefinitionModel,
              runwayName = initialRunwayAssignment,
              legCollection = [],
              currentPhase = JsString []\<rparr>)"


section \<open>Specification-side notions and example routes\<close>

text \<open>
  A leg contains a waypoint named \<open>n\<close>, case-insensitively: one of its entries has the
  lowercased \<open>n\<close> as its (lowercase) name.
\<close>

definition containsWaypoint :: "lowerCasing \<Rightarrow> string \<Rightarrow> leg \<Rightarrow> bool" where
  "containsWaypoint toLowerCase n l =
     (\<exists>w \<in> set (waypointCollection l). name w = toLowerCase n)"

text \<open>
  The names of the examples are ASCII. On a string of ASCII characters
  \<open>String.prototype.toLowerCase\<close> turns the letters A to Z into a to z and leaves
  every other character as it is; \<open>asciiToLowerCase\<close> does that, and stands for the
  engine's function at the examples only.
\<close>

definition asciiToLowerCaseChar :: "char \<Rightarrow> char" where
  "asciiToLowerCaseChar c =
     (case map_of (zip ''ABCDEFGHIJKLMNOPQRSTUVWXYZ'' ''abcdefghijklmnopqrstuvwxyz'') c of
        None \<Rightarrow> c
      | Some d \<Rightarrow> d)"

definition asciiToLowerCase :: lowerCasing where
  "asciiToLowerCase s = map asciiToLowerCaseChar s"

text \<open>
  The route \<open>cowby..bikkr..dag.kepec3.klas\<close> of the source's comments: two direct
  fixes and an arrival procedure of three waypoints, two of them with an altitude
  restriction.
\<close>

definition mkWaypoint :: "string \<Rightarrow> number list \<Rightarrow> number \<Rightarrow> waypoint" where
  "mkWaypoint n p a =
     \<lparr>name = n, position = Some p, altitudeRestriction = a, speedRestriction = -1,
      isHold = False\<rparr>"

definition legCowby :: leg where
  "legCowby =
     \<lparr>waypointCollection = [mkWaypoint ''cowby'' [1, 2] (-1)],
      currentIndex = 0, routeString = ''cowby''\<rparr>"

definition legBikkr :: leg where
  "legBikkr =
     \<lparr>waypointCollection = [mkWaypoint ''bikkr'' [3, 4] (-1)],
      currentIndex = 0, routeString = ''bikkr''\<rparr>"

definition legKepec3 :: leg where
  "legKepec3 =
     \<lparr>waypointCollection =
        [mkWaypoint ''dag'' [5, 6] (-1), mkWaypoint ''misen'' [7, 8] 11000,
         mkWaypoint ''clarr'' [9, 10] 13000],
      currentIndex = 0, routeString = ''dag.kepec3.klas''\<rparr>"

definition exampleModes :: "altitudeModeName \<Rightarrow> headingModeName \<Rightarrow> ModeController" where
  "exampleModes am hm =
     \<lparr>altitudeMode = am, altitude = 9000, headingMode = hm, heading = 270,
      speedMode = SPEED_OTHER ''OFF'', speed = 250\<rparr>"

definition exampleType :: AircraftTypeDefinitionModel where
  "exampleType = \<lparr>serviceCeiling = 41000, cruiseSpeed = 460\<rparr>"

definition exampleFms :: "ModeController \<Rightarrow> leg list \<Rightarrow> unit fms" where
  "exampleFms mcp legs =
     \<lparr>navigationLibrary = (), modeController = mcp, aircraftTypeDefinition = exampleType,
      runwayName = ''19l'', legCollection = legs, currentPhase = JsString ''arrival''\<rparr>"

definition arrivalFms :: "leg list \<Rightarrow> unit fms" where
  "arrivalFms legs = exampleFms (exampleModes ALTITUDE_VNAV HEADING_LNAV) legs"

text \<open>
  A navigation stub for the example route: it resolves the three segments of the
  route above, in either case of their letters, and nothing else; the mode
  controller of a new aircraft flies the route (VNAV, LNAV).
\<close>

definition exampleResolve :: "unit navigationLookup" where
  "exampleResolve routeSegment runway phase nav =
     (if asciiToLowerCase routeSegment = ''cowby'' then Some (waypointCollection legCowby)
      else if asciiToLowerCase routeSegment = ''bikkr'' then Some (waypointCollection legBikkr)
      else if asciiToLowerCase routeSegment = ''dag.kepec3.klas''
        then Some (waypointCollection legKepec3)
      else None)"

definition exampleNewModeController :: "AircraftTypeDefinitionModel \<Rightarrow> ModeController" where
  "exampleNewModeController typeDefinitionModel = exampleModes ALTITUDE_VNAV HEADING_LNAV"

definition examplePayload :: "string \<Rightarrow> jsValue" where
  "examplePayload route =
     JsObject [(''category'', JsString ''arrival''), (''route'', JsString route)]"

section \<open>Facts about the library functions\<close>

lemmas example_defs = arrivalFms_def exampleFms_def exampleModes_def exampleType_def
  legCowby_def legBikkr_def legKepec3_def mkWaypoint_def

lemmas leg_defs = LegModel_hasNextWaypoint_def LegModel_currentWaypoint_def
  LegModel_nextWaypoint_def LegModel_moveToNextWaypoint_def
  LegModel_skipToWaypointAtIndex_def LegModel_destroy_def

lemma currentLeg_Nil: "legCollection f = [] \<Longrightarrow> currentLeg f = None"
  by (simp add: currentLeg_def jsIndex_def)

lemma currentLeg_Cons: "legCollection f = l # rest \<Longrightarrow> currentLeg f = Some l"
  by (simp add: currentLeg_def jsIndex_def)

lemma takeWhile_first_match:
  "\<exists>x \<in> set xs. P x \<Longrightarrow>
     length (takeWhile (\<lambda>x. \<not> P x) xs) < length xs
     \<and> P (xs ! length (takeWhile (\<lambda>x. \<not> P x) xs))"
  by (induction xs) auto

lemma findIndexFrom_none: "\<not> (\<exists>x \<in> set xs. P x) \<Longrightarrow> findIndexFrom P xs i = -1"
  by (induction xs arbitrary: i) auto

lemma findIndexFrom_first:
  "\<exists>x \<in> set xs. P x \<Longrightarrow> findIndexFrom P xs i = i + int (length (takeWhile (\<lambda>x. \<not> P x) xs))"
proof (induction xs arbitrary: i)
  case Nil
  then show ?case by simp
next
  case (Cons a xs)
  show ?case
  proof (cases "P a")
    case True
    then show ?thesis by simp
  next
    case False
    with Cons.prems have "\<exists>x \<in> set xs. P x" by auto
    from Cons.IH [OF this, of "i + 1"] False show ?thesis by simp
  qed
qed

lemma findIndex_none: "\<not> (\<exists>x \<in> set xs. P x) \<Longrightarrow> findIndex xs P = -1"
  by (simp add: findIndex_def findIndexFrom_none)

lemma findIndex_first:
  "\<exists>x \<in> set xs. P x \<Longrightarrow> findIndex xs P = int (length (takeWhile (\<lambda>x. \<not> P x) xs))"
  by (simp add: findIndex_def findIndexFrom_first)

lemma findIndex_name:
  "findIndex (waypointCollection l) (\<lambda>w. name w = toLowerCase n) =
     (if containsWaypoint toLowerCase n l
      then int (length (takeWhile (\<lambda>w. name w \<noteq> toLowerCase n) (waypointCollection l)))
      else -1)"
  by (simp add: containsWaypoint_def findIndex_none findIndex_first)

lemma findLegLoop_none:
  "\<forall>l \<in> set (drop k legs). \<not> containsWaypoint toLowerCase n l \<Longrightarrow> k \<le> length legs \<Longrightarrow>
     fst (findLegLoop toLowerCase n legs k wi) = length legs"
proof (induction toLowerCase n legs k wi rule: findLegLoop.induct)
  case (1 toLowerCase n legs k wi)
  show ?case
  proof (cases "k < length legs")
    case True
    then have d: "drop k legs = legs ! k # drop (Suc k) legs"
      by (simp add: Cons_nth_drop_Suc)
    with "1.prems" have nk: "\<not> containsWaypoint toLowerCase n (legs ! k)"
      and rest: "\<forall>l \<in> set (drop (Suc k) legs). \<not> containsWaypoint toLowerCase n l"
      by auto
    from nk have fi: "findIndex (waypointCollection (legs ! k)) (\<lambda>w. name w = toLowerCase n) = -1"
      by (simp add: findIndex_name)
    have "fst (findLegLoop toLowerCase n legs (k + 1) (-1)) = length legs"
      using "1.IH" [OF True refl refl] fi rest True by simp
    then show ?thesis
      using True fi by (subst findLegLoop.simps) simp
  next
    case False
    with "1.prems" show ?thesis by (subst findLegLoop.simps) simp
  qed
qed

lemma findLegLoop_first:
  "\<exists>l \<in> set (drop k legs). containsWaypoint toLowerCase n l \<Longrightarrow>
     findLegLoop toLowerCase n legs k wi =
       (k + length (takeWhile (\<lambda>l. \<not> containsWaypoint toLowerCase n l) (drop k legs)),
        int (length (takeWhile (\<lambda>w. name w \<noteq> toLowerCase n)
          (waypointCollection (hd (dropWhile (\<lambda>l. \<not> containsWaypoint toLowerCase n l) (drop k legs)))))))"
proof (induction toLowerCase n legs k wi rule: findLegLoop.induct)
  case (1 toLowerCase n legs k wi)
  from "1.prems" have lt: "k < length legs"
    by (cases "k < length legs") auto
  then have d: "drop k legs = legs ! k # drop (Suc k) legs"
    by (simp add: Cons_nth_drop_Suc)
  show ?case
  proof (cases "containsWaypoint toLowerCase n (legs ! k)")
    case True
    then show ?thesis
      using lt d by (subst findLegLoop.simps) (simp add: findIndex_name)
  next
    case False
    then have fi: "findIndex (waypointCollection (legs ! k)) (\<lambda>w. name w = toLowerCase n) = -1"
      by (simp add: findIndex_name)
    from False "1.prems" d have ex: "\<exists>l \<in> set (drop (k + 1) legs). containsWaypoint toLowerCase n l"
      by auto
    show ?thesis
      using "1.IH" [OF lt refl refl _ ex] fi lt d False
      by (subst findLegLoop.simps) simp
  qed
qed





lemma mapThrowing_Inl: "mapThrowing g xs = Inl e \<Longrightarrow> \<exists>x \<in> set xs. g x = Inl e"
  by (induction xs) (auto split: sum.splits)


lemma routeStringFormatHelper_Inl: "routeStringFormatHelper r = Inl e \<Longrightarrow> e = MalformedRouteError"
  by (auto simp: routeStringFormatHelper_def split: jsValue.splits if_splits)





lemma LegModel_new_Inl:
  "LegModel_new toLowerCase resolve seg rwy ph nav = Inl e \<Longrightarrow> e = LookupError"
  by (auto simp: LegModel_new_def split: option.splits)

lemma Fms_init_Inl:
  "Fms_init toLowerCase resolve props f = Inl e \<Longrightarrow> e = MalformedRouteError \<or> e = LookupError"
  by (auto simp: Fms_init_def buildInitialLegCollection_def Let_def split: sum.splits
      dest!: routeStringFormatHelper_Inl mapThrowing_Inl LegModel_new_Inl)

section \<open>Target values\<close>

text \<open>
  Claim C3. In every state with a current waypoint, \<open>getAltitude()\<close> returns the held
  altitude of the mode controller when the altitude mode is HOLD, whatever the
  restriction; otherwise the current waypoint's altitude restriction when it is not
  \<open>-1\<close>; otherwise the service ceiling of the aircraft type.
\<close>

theorem getAltitude_precedence:
  assumes "currentWaypoint f = Inr (Some w)"
  shows "getAltitude f =
           Inr (if altitudeMode (modeController f) = ALTITUDE_HOLD
                then altitude (modeController f)
                else if altitudeRestriction w \<noteq> -1 then altitudeRestriction w
                else serviceCeiling (aircraftTypeDefinition f))"
  using assms by (simp add: getAltitude_def)

text \<open>
  The concrete case of the claim: ceiling 41000, restriction 11000 at \<open>misen\<close>, held
  altitude 9000. HOLD gives 9000, VNAV gives 11000, and VNAV at the unrestricted
  \<open>dag\<close> gives 41000.
\<close>

theorem getAltitude_precedence_witness:
  "currentWaypoint (exampleFms (exampleModes ALTITUDE_HOLD HEADING_LNAV)
       [legKepec3\<lparr>currentIndex := 1\<rparr>])
     = Inr (Some (mkWaypoint ''misen'' [7, 8] 11000))
   \<and> getAltitude (exampleFms (exampleModes ALTITUDE_HOLD HEADING_LNAV)
       [legKepec3\<lparr>currentIndex := 1\<rparr>]) = Inr 9000
   \<and> getAltitude (exampleFms (exampleModes ALTITUDE_VNAV HEADING_LNAV)
       [legKepec3\<lparr>currentIndex := 1\<rparr>]) = Inr 11000
   \<and> getAltitude (exampleFms (exampleModes ALTITUDE_VNAV HEADING_LNAV) [legKepec3])
       = Inr 41000"
proof -
  let ?l = "legKepec3\<lparr>currentIndex := 1\<rparr>"
  have w1: "currentWaypoint (exampleFms (exampleModes ALTITUDE_HOLD HEADING_LNAV) [?l])
              = Inr (Some (mkWaypoint ''misen'' [7, 8] 11000))"
    by (simp add: currentWaypoint_def currentLeg_def jsIndex_def LegModel_currentWaypoint_def
        exampleFms_def legKepec3_def)
  have w2: "currentWaypoint (exampleFms (exampleModes ALTITUDE_VNAV HEADING_LNAV) [?l])
              = Inr (Some (mkWaypoint ''misen'' [7, 8] 11000))"
    by (simp add: currentWaypoint_def currentLeg_def jsIndex_def LegModel_currentWaypoint_def
        exampleFms_def legKepec3_def)
  have w3: "currentWaypoint (exampleFms (exampleModes ALTITUDE_VNAV HEADING_LNAV) [legKepec3])
              = Inr (Some (mkWaypoint ''dag'' [5, 6] (-1)))"
    by (simp add: currentWaypoint_def currentLeg_def jsIndex_def LegModel_currentWaypoint_def
        exampleFms_def legKepec3_def)
  show ?thesis
    using w1 getAltitude_precedence [OF w1] getAltitude_precedence [OF w2]
      getAltitude_precedence [OF w3]
    by (simp add: exampleFms_def exampleModes_def exampleType_def mkWaypoint_def)
qed

text \<open>
  Claim C7. \<open>getHeading()\<close> returns the sentinel \<open>-999\<close> whenever the heading mode is
  not HOLD, LNAV included, and exactly the held heading of the mode controller when
  the heading mode is HOLD.
\<close>

theorem getHeading_sentinel:
  "(headingMode (modeController f) \<noteq> HEADING_HOLD \<longrightarrow> getHeading f = -999)
   \<and> (headingMode (modeController f) = HEADING_HOLD \<longrightarrow>
        getHeading f = heading (modeController f))"
  by (simp add: getHeading_def)

theorem getHeading_sentinel_witness:
  "getHeading (exampleFms (exampleModes ALTITUDE_VNAV HEADING_LNAV) [legCowby]) = -999
   \<and> getHeading (exampleFms (exampleModes ALTITUDE_VNAV (HEADING_OTHER ''OFF'')) [legCowby])
       = -999
   \<and> getHeading (exampleFms (exampleModes ALTITUDE_VNAV HEADING_HOLD) [legCowby]) = 270"
  using
    getHeading_sentinel [of "exampleFms (exampleModes ALTITUDE_VNAV HEADING_LNAV) [legCowby]"]
    getHeading_sentinel
      [of "exampleFms (exampleModes ALTITUDE_VNAV (HEADING_OTHER ''OFF'')) [legCowby]"]
    getHeading_sentinel [of "exampleFms (exampleModes ALTITUDE_VNAV HEADING_HOLD) [legCowby]"]
  by (simp add: exampleFms_def exampleModes_def)

section \<open>Waypoint sequencing\<close>

text \<open>
  Claim C6. With a non-empty leg collection, \<open>hasNextWaypoint()\<close> returns true if and
  only if the current leg, \<open>legCollection[0]\<close>, has a next waypoint or the collection
  has at least a second leg; the existence of that leg is enough.
\<close>

theorem hasNextWaypoint_iff:
  assumes "legCollection f \<noteq> []"
  shows "hasNextWaypoint f =
           Inr (LegModel_hasNextWaypoint (hd (legCollection f)) \<or> 2 \<le> length (legCollection f))"
proof -
  from assms obtain l rest where legs: "legCollection f = l # rest"
    by (cases "legCollection f") auto
  have "isNil (jsIndex (l # rest) 1) \<longleftrightarrow> rest = []"
    by (cases rest) (simp_all add: isNil_def jsIndex_def)
  moreover have "2 \<le> length (l # rest) \<longleftrightarrow> rest \<noteq> []"
    by (cases rest) simp_all
  ultimately show ?thesis
    by (simp add: hasNextWaypoint_def currentLeg_def jsIndex_def legs)
qed

theorem hasNextWaypoint_iff_witness:
  "legCollection (arrivalFms [legCowby]) \<noteq> []
   \<and> hasNextWaypoint (arrivalFms [legCowby]) = Inr False
   \<and> hasNextWaypoint (arrivalFms [legCowby, legBikkr]) = Inr True
   \<and> hasNextWaypoint (arrivalFms [legKepec3]) = Inr True"
  using hasNextWaypoint_iff [of "arrivalFms [legCowby]"]
    hasNextWaypoint_iff [of "arrivalFms [legCowby, legBikkr]"]
    hasNextWaypoint_iff [of "arrivalFms [legKepec3]"]
  by (simp add: example_defs LegModel_hasNextWaypoint_def)


text \<open>
  Claim C4. When some leg contains a waypoint named \<open>n\<close> (the stored lowercase names
  are compared with the lowercased \<open>n\<close>), \<open>skipToWaypoint(n)\<close> returns normally; it
  removes from the leg collection exactly the legs before the first leg containing
  such a waypoint, sets that leg's cursor to the index of its first waypoint of that
  name, and the current waypoint's name is then the lowercased \<open>n\<close>. This holds for
  every name and for whatever \<open>toLowerCase\<close> makes of it.
\<close>

theorem skipToWaypoint_found:
  assumes "\<exists>l \<in> set (legCollection f). containsWaypoint toLowerCase n l"
  shows "let pre = takeWhile (\<lambda>l. \<not> containsWaypoint toLowerCase n l) (legCollection f);
             l = hd (dropWhile (\<lambda>l. \<not> containsWaypoint toLowerCase n l) (legCollection f));
             post = tl (dropWhile (\<lambda>l. \<not> containsWaypoint toLowerCase n l) (legCollection f));
             i = int (length (takeWhile (\<lambda>w. name w \<noteq> toLowerCase n) (waypointCollection l)))
         in legCollection f = pre @ l # post
            \<and> containsWaypoint toLowerCase n l
            \<and> skipToWaypoint toLowerCase n f = (None, f\<lparr>legCollection := l\<lparr>currentIndex := i\<rparr> # post\<rparr>)
            \<and> (\<exists>w. currentWaypoint (snd (skipToWaypoint toLowerCase n f)) = Inr (Some w)
                    \<and> name w = toLowerCase n)"
proof -
  define legs where "legs = legCollection f"
  define pre where "pre = takeWhile (\<lambda>l. \<not> containsWaypoint toLowerCase n l) legs"
  define dw where "dw = dropWhile (\<lambda>l. \<not> containsWaypoint toLowerCase n l) legs"
  from assms have "dw \<noteq> []" by (auto simp: dw_def legs_def)
  then obtain l post where dw: "dw = l # post" by (cases dw) auto
  have split: "legs = pre @ l # post"
    unfolding pre_def using dw [unfolded dw_def]
    by (metis takeWhile_dropWhile_id)
  have cl: "containsWaypoint toLowerCase n l"
    using hd_dropWhile [of "\<lambda>l. \<not> containsWaypoint toLowerCase n l" legs] dw [unfolded dw_def]
    by simp
  define i where "i = length (takeWhile (\<lambda>w. name w \<noteq> toLowerCase n) (waypointCollection l))"
  from cl have "i < length (waypointCollection l) \<and> name (waypointCollection l ! i) = toLowerCase n"
    unfolding i_def containsWaypoint_def
    using takeWhile_first_match [of "waypointCollection l" "\<lambda>w. name w = toLowerCase n"]
    by simp
  then have ilt: "i < length (waypointCollection l)"
    and nm: "name (waypointCollection l ! i) = toLowerCase n"
    by simp_all
  have loop: "findLegLoop toLowerCase n legs 0 (-1) = (length pre, int i)"
    using findLegLoop_first [where k = 0 and legs = legs and n = n and wi = "-1"
        and toLowerCase = toLowerCase] assms dw
    by (simp add: legs_def [symmetric] pre_def dw_def [symmetric] i_def)
  have dr: "drop (length pre) legs = l # post"
    by (simp add: split)
  have skip: "skipToWaypoint toLowerCase n f = (None, f\<lparr>legCollection := l\<lparr>currentIndex := int i\<rparr> # post\<rparr>)"
  proof -
    have "currentLeg (f\<lparr>legCollection := l # post\<rparr>) = Some l"
      by (simp add: currentLeg_Cons)
    with loop dr show ?thesis
      by (simp add: skipToWaypoint_def findLegAndWaypointIndexForWaypointName_def lodashDrop_def
          Let_def LegModel_skipToWaypointAtIndex_def legs_def [symmetric])
  qed
  have cw: "currentWaypoint (snd (skipToWaypoint toLowerCase n f)) = Inr (Some (waypointCollection l ! i))"
    using ilt by (simp add: skip currentWaypoint_def currentLeg_Cons jsIndex_def
        LegModel_currentWaypoint_def)
  show ?thesis
    using split cl skip cw nm dw
    by (simp add: Let_def legs_def [symmetric] pre_def dw_def [symmetric] i_def)
qed


theorem skipToWaypoint_found_witness:
  "(\<exists>l \<in> set (legCollection (arrivalFms [legCowby, legBikkr, legKepec3])).
      containsWaypoint asciiToLowerCase ''MISEN'' l)
   \<and> skipToWaypoint asciiToLowerCase ''MISEN'' (arrivalFms [legCowby, legBikkr, legKepec3])
       = (None, arrivalFms [legKepec3\<lparr>currentIndex := 1\<rparr>])
   \<and> currentWaypoint (snd (skipToWaypoint asciiToLowerCase ''MISEN'' (arrivalFms [legCowby, legBikkr, legKepec3])))
       = Inr (Some (mkWaypoint ''misen'' [7, 8] 11000))"
proof -
  have lc: "asciiToLowerCase ''MISEN'' = ''misen''"
    by (simp add: asciiToLowerCase_def asciiToLowerCaseChar_def)
  have ex: "\<exists>l \<in> set (legCollection (arrivalFms [legCowby, legBikkr, legKepec3])).
              containsWaypoint asciiToLowerCase ''MISEN'' l"
    by (simp add: containsWaypoint_def lc example_defs)
  have sk: "skipToWaypoint asciiToLowerCase ''MISEN'' (arrivalFms [legCowby, legBikkr, legKepec3])
              = (None, arrivalFms [legKepec3\<lparr>currentIndex := 1\<rparr>])"
    using skipToWaypoint_found [OF ex]
    by (simp add: Let_def containsWaypoint_def lc example_defs)
  have cw: "currentWaypoint (arrivalFms [legKepec3\<lparr>currentIndex := 1\<rparr>])
              = Inr (Some (mkWaypoint ''misen'' [7, 8] 11000))"
    by (simp add: currentWaypoint_def currentLeg_def jsIndex_def LegModel_currentWaypoint_def
        example_defs)
  from ex sk cw show ?thesis by simp
qed

text \<open>
  When no leg contains the name, the loop of the search runs to the end: the leg
  index it returns is the length of the collection, so \<open>_drop\<close> empties the
  collection, and the call on the current leg, now \<open>undefined\<close>, raises.
\<close>

lemma skipToWaypoint_absent:
  assumes "\<forall>l \<in> set (legCollection f). \<not> containsWaypoint toLowerCase n l"
  shows "skipToWaypoint toLowerCase n f = (Some undefinedRead, f\<lparr>legCollection := []\<rparr>)"
proof -
  obtain li wi where r: "findLegLoop toLowerCase n (legCollection f) 0 (-1) = (li, wi)"
    by (cases "findLegLoop toLowerCase n (legCollection f) 0 (-1)") auto
  from findLegLoop_none [where k = 0 and legs = "legCollection f" and n = n and wi = "-1"
      and toLowerCase = toLowerCase] assms r
  have "li = length (legCollection f)" by simp
  with r show ?thesis
    by (simp add: skipToWaypoint_def findLegAndWaypointIndexForWaypointName_def lodashDrop_def
        Let_def currentLeg_Nil)
qed

text \<open>
  Claim C1. The claim: on a route without a waypoint named \<open>n\<close>, \<open>skipToWaypoint(n)\<close>
  fails and leaves the leg collection as it was. The code at the route
  \<open>cowby..dag.kepec3.klas\<close> and the name \<open>bikkr\<close>: the call fails, with the
  \<open>TypeError\<close> of a property read on \<open>undefined\<close>, after it has replaced the leg
  collection by the empty array.
\<close>

theorem skipToWaypoint_absent_empties_route:
  "\<not> containsWaypoint asciiToLowerCase ''bikkr'' legCowby
   \<and> \<not> containsWaypoint asciiToLowerCase ''bikkr'' legKepec3
   \<and> skipToWaypoint asciiToLowerCase ''bikkr'' (arrivalFms [legCowby, legKepec3])
       = (Some undefinedRead, arrivalFms [])
   \<and> legCollection (snd (skipToWaypoint asciiToLowerCase ''bikkr'' (arrivalFms [legCowby, legKepec3])))
       \<noteq> legCollection (arrivalFms [legCowby, legKepec3])"
proof -
  have lc: "asciiToLowerCase ''bikkr'' = ''bikkr''"
    by (simp add: asciiToLowerCase_def asciiToLowerCaseChar_def)
  have no: "\<not> containsWaypoint asciiToLowerCase ''bikkr'' legCowby" "\<not> containsWaypoint asciiToLowerCase ''bikkr'' legKepec3"
    by (simp_all add: containsWaypoint_def lc example_defs)
  then have "\<forall>l \<in> set (legCollection (arrivalFms [legCowby, legKepec3])).
               \<not> containsWaypoint asciiToLowerCase ''bikkr'' l"
    by (simp add: arrivalFms_def exampleFms_def)
  from skipToWaypoint_absent [OF this]
  have "skipToWaypoint asciiToLowerCase ''bikkr'' (arrivalFms [legCowby, legKepec3])
          = (Some undefinedRead, arrivalFms [])"
    by (simp add: arrivalFms_def exampleFms_def)
  with no show ?thesis by (simp add: arrivalFms_def exampleFms_def)
qed

text \<open>
  At the end of the route (the current leg has no next waypoint and there is no other
  leg) \<open>nextWaypoint()\<close> takes the branch of line 353, which removes the last leg, and
  line 357 then calls a method of \<open>undefined\<close>.
\<close>

lemma nextWaypoint_at_end:
  assumes "hasNextWaypoint f = Inr False"
  shows "nextWaypoint policy f = (Some undefinedRead, f\<lparr>legCollection := []\<rparr>)"
proof -
  from assms obtain l rest where legs: "legCollection f = l # rest"
    by (cases "legCollection f") (auto simp: hasNextWaypoint_def currentLeg_Nil)
  from assms legs have ex: "\<not> LegModel_hasNextWaypoint l" and "isNil (jsIndex (l # rest) 1)"
    by (simp_all add: hasNextWaypoint_def currentLeg_Cons)
  then have rest: "rest = []"
    by (cases rest) (simp_all add: isNil_def jsIndex_def)
  have mv: "moveToNextLeg f = (None, f\<lparr>legCollection := []\<rparr>)"
    by (simp add: moveToNextLeg_def currentLeg_Cons legs rest Let_def)
  have "moveToNextWaypointInLeg policy (f\<lparr>legCollection := []\<rparr>)
          = (Some undefinedRead, f\<lparr>legCollection := []\<rparr>)"
    by (simp add: moveToNextWaypointInLeg_def currentLeg_Nil)
  with mv ex show ?thesis
    by (simp add: nextWaypoint_def currentLeg_Cons legs)
qed

text \<open>
  Claim C2. The claim: when \<open>hasNextWaypoint()\<close> is false, \<open>nextWaypoint()\<close> has no
  effect on the leg collection. The code at the one-leg route \<open>cowby\<close>:
  \<open>hasNextWaypoint()\<close> is false, and \<open>nextWaypoint()\<close> empties the leg collection and
  raises a \<open>TypeError\<close>, whatever the leg does when it is asked to advance past its
  end.
\<close>

theorem nextWaypoint_at_end_empties_route:
  "hasNextWaypoint (arrivalFms [legCowby]) = Inr False
   \<and> nextWaypoint NoOp (arrivalFms [legCowby]) = (Some undefinedRead, arrivalFms [])
   \<and> nextWaypoint FatalAssertion (arrivalFms [legCowby]) = (Some undefinedRead, arrivalFms [])
   \<and> legCollection (arrivalFms []) \<noteq> legCollection (arrivalFms [legCowby])"
proof -
  have h: "hasNextWaypoint (arrivalFms [legCowby]) = Inr False"
    by (simp add: hasNextWaypoint_def currentLeg_def jsIndex_def isNil_def
        LegModel_hasNextWaypoint_def example_defs)
  have e: "(arrivalFms [legCowby])\<lparr>legCollection := []\<rparr> = arrivalFms []"
    by (simp add: arrivalFms_def exampleFms_def)
  from h nextWaypoint_at_end [OF h, of NoOp] nextWaypoint_at_end [OF h, of FatalAssertion] e
  show ?thesis by (simp add: arrivalFms_def exampleFms_def)
qed

text \<open>
  The three cases of \<open>getNextWaypointPosition()\<close>: \<open>null\<close> when there is no next
  waypoint; the position of the current leg's next waypoint when it has one; and,
  when the current leg is exhausted and another leg follows, the \<open>TypeError\<close> of
  line 395, which reads \<open>position\<close> of the undefined next waypoint before line 397
  looks at the following leg.
\<close>

lemma getNextWaypointPosition_null:
  "hasNextWaypoint f = Inr False \<Longrightarrow> getNextWaypointPosition f = Inr None"
  by (simp add: getNextWaypointPosition_def)

lemma getNextWaypointPosition_in_leg:
  assumes "legCollection f = l # rest" and "LegModel_hasNextWaypoint l"
  shows "getNextWaypointPosition f
           = Inr (position (waypointCollection l ! nat (currentIndex l + 1)))"
proof -
  from assms have h: "hasNextWaypoint f = Inr True"
    by (simp add: hasNextWaypoint_def currentLeg_Cons)
  from assms(2) have "LegModel_nextWaypoint l = Some (waypointCollection l ! nat (currentIndex l + 1))"
    by (simp add: LegModel_nextWaypoint_def LegModel_hasNextWaypoint_def jsIndex_def)
  with h assms show ?thesis
    by (simp add: getNextWaypointPosition_def currentLeg_Cons)
qed

lemma getNextWaypointPosition_exhausted:
  assumes "legCollection f = l # l1 # rest" and "\<not> LegModel_hasNextWaypoint l"
  shows "getNextWaypointPosition f = Inl undefinedRead"
proof -
  from assms have h: "hasNextWaypoint f = Inr True"
    by (simp add: hasNextWaypoint_def currentLeg_Cons isNil_def jsIndex_def)
  from assms(2) have "LegModel_nextWaypoint l = None"
    by (simp add: LegModel_nextWaypoint_def LegModel_hasNextWaypoint_def jsIndex_def)
  with h assms show ?thesis
    by (simp add: getNextWaypointPosition_def currentLeg_Cons)
qed

text \<open>
  Claim C5. The claim: \<open>getNextWaypointPosition()\<close> returns the position of the
  following leg's current waypoint when the current leg is exhausted. The code at the
  route \<open>cowby..bikkr\<close>: \<open>hasNextWaypoint()\<close> is true, the current leg \<open>cowby\<close> has no
  next waypoint, the following leg's current waypoint \<open>bikkr\<close> has the position
  \<open>[3, 4]\<close>, and the call raises a \<open>TypeError\<close> instead of returning it.
\<close>

theorem getNextWaypointPosition_exhausted_leg_throws:
  "hasNextWaypoint (arrivalFms [legCowby, legBikkr]) = Inr True
   \<and> \<not> LegModel_hasNextWaypoint legCowby
   \<and> map_option position (LegModel_currentWaypoint legBikkr) = Some (Some [3, 4])
   \<and> getNextWaypointPosition (arrivalFms [legCowby, legBikkr]) = Inl undefinedRead"
proof -
  have legs: "legCollection (arrivalFms [legCowby, legBikkr]) = legCowby # legBikkr # []"
    by (simp add: arrivalFms_def exampleFms_def)
  have ex: "\<not> LegModel_hasNextWaypoint legCowby"
    by (simp add: LegModel_hasNextWaypoint_def legCowby_def)
  have h: "hasNextWaypoint (arrivalFms [legCowby, legBikkr]) = Inr True"
    by (simp add: hasNextWaypoint_def currentLeg_Cons [OF legs] legs isNil_def jsIndex_def)
  have p: "map_option position (LegModel_currentWaypoint legBikkr) = Some (Some [3, 4])"
    by (simp add: LegModel_currentWaypoint_def jsIndex_def legBikkr_def mkWaypoint_def)
  from h ex p getNextWaypointPosition_exhausted [OF legs ex] show ?thesis by simp
qed

text \<open>
  Claim C10, as amended. When the current leg is exhausted and the following leg has
  a waypoint after its cursor, \<open>nextWaypoint()\<close> returns normally, removes the
  exhausted leg and advances the cursor of the new current leg by one: the current
  waypoint becomes that leg's waypoint after its cursor (the one at index 1 when the
  cursor was at 0, as it is for a leg not yet flown), not the one at its cursor. This
  holds whatever a leg does when asked to advance past its end.
\<close>

theorem nextWaypoint_crosses_leg:
  assumes "legCollection f = l0 # l1 # rest"
    and "\<not> LegModel_hasNextWaypoint l0"
    and "LegModel_hasNextWaypoint l1"
  shows "nextWaypoint policy f
           = (None, f\<lparr>legCollection := l1\<lparr>currentIndex := currentIndex l1 + 1\<rparr> # rest\<rparr>)
         \<and> currentWaypoint (snd (nextWaypoint policy f))
           = Inr (Some (waypointCollection l1 ! nat (currentIndex l1 + 1)))
         \<and> (currentIndex l1 = 0 \<longrightarrow>
              currentWaypoint (snd (nextWaypoint policy f)) = Inr (Some (waypointCollection l1 ! 1)))"
proof -
  have mv: "moveToNextLeg f = (None, f\<lparr>legCollection := l1 # rest\<rparr>)"
    by (simp add: moveToNextLeg_def currentLeg_Cons [OF assms(1)] assms(1) Let_def)
  have adv: "moveToNextWaypointInLeg policy (f\<lparr>legCollection := l1 # rest\<rparr>)
          = (None, f\<lparr>legCollection := l1\<lparr>currentIndex := currentIndex l1 + 1\<rparr> # rest\<rparr>)"
    using assms(3)
    by (simp add: moveToNextWaypointInLeg_def currentLeg_Cons LegModel_moveToNextWaypoint_def)
  have nw: "nextWaypoint policy f
          = (None, f\<lparr>legCollection := l1\<lparr>currentIndex := currentIndex l1 + 1\<rparr> # rest\<rparr>)"
    using mv adv assms(2) by (simp add: nextWaypoint_def currentLeg_Cons [OF assms(1)])
  have cw: "currentWaypoint (snd (nextWaypoint policy f))
          = Inr (Some (waypointCollection l1 ! nat (currentIndex l1 + 1)))"
    using assms(3)
    by (simp add: nw currentWaypoint_def currentLeg_Cons LegModel_currentWaypoint_def
        LegModel_hasNextWaypoint_def jsIndex_def)
  have "currentWaypoint (snd (nextWaypoint policy f)) = Inr (Some (waypointCollection l1 ! 1))"
    if "currentIndex l1 = 0"
    using cw that by simp
  with nw cw show ?thesis by blast
qed

theorem nextWaypoint_crosses_leg_witness:
  "legCollection (arrivalFms [legCowby, legKepec3]) = legCowby # legKepec3 # []
   \<and> \<not> LegModel_hasNextWaypoint legCowby
   \<and> LegModel_hasNextWaypoint legKepec3
   \<and> nextWaypoint NoOp (arrivalFms [legCowby, legKepec3])
       = (None, arrivalFms [legKepec3\<lparr>currentIndex := 1\<rparr>])
   \<and> currentWaypoint (snd (nextWaypoint NoOp (arrivalFms [legCowby, legKepec3])))
       = Inr (Some (mkWaypoint ''misen'' [7, 8] 11000))"
proof -
  have legs: "legCollection (arrivalFms [legCowby, legKepec3]) = legCowby # legKepec3 # []"
    by (simp add: arrivalFms_def exampleFms_def)
  have ex: "\<not> LegModel_hasNextWaypoint legCowby"
    by (simp add: LegModel_hasNextWaypoint_def legCowby_def)
  have nx: "LegModel_hasNextWaypoint legKepec3"
    by (simp add: LegModel_hasNextWaypoint_def legKepec3_def)
  have ci: "currentIndex legKepec3 = 0" and w1: "waypointCollection legKepec3 ! 1 = mkWaypoint ''misen'' [7, 8] 11000"
    by (simp_all add: legKepec3_def)
  have upd: "(arrivalFms [legCowby, legKepec3])\<lparr>legCollection := [legKepec3\<lparr>currentIndex := 1\<rparr>]\<rparr>
              = arrivalFms [legKepec3\<lparr>currentIndex := 1\<rparr>]"
    by (simp add: arrivalFms_def exampleFms_def)
  note t = nextWaypoint_crosses_leg [OF legs ex nx, of NoOp]
  from t [THEN conjunct1] ci upd
  have a: "nextWaypoint NoOp (arrivalFms [legCowby, legKepec3])
          = (None, arrivalFms [legKepec3\<lparr>currentIndex := 1\<rparr>])"
    by simp
  from t [THEN conjunct2, THEN conjunct1] ci w1
  have b: "currentWaypoint (snd (nextWaypoint NoOp (arrivalFms [legCowby, legKepec3])))
          = Inr (Some (mkWaypoint ''misen'' [7, 8] 11000))"
    by simp
  from legs ex nx a b show ?thesis by blast
qed

text \<open>
  The claim C10 as stated fails at the route \<open>cowby..bikkr\<close>: the following leg
  \<open>bikkr\<close> has no waypoint at index 1, and after \<open>nextWaypoint()\<close> the current waypoint
  is its first waypoint, at index 0, under either reading of the leg's
  \<open>moveToNextWaypoint()\<close>; and \<open>getNextWaypointPosition()\<close> had raised beforehand rather
  than reported a position.
\<close>

theorem nextWaypoint_single_fix_leg_counterexample:
  "legCollection (arrivalFms [legCowby, legBikkr]) = [legCowby, legBikkr]
   \<and> \<not> LegModel_hasNextWaypoint legCowby
   \<and> jsIndex (waypointCollection legBikkr) 1 = None
   \<and> currentWaypoint (snd (nextWaypoint NoOp (arrivalFms [legCowby, legBikkr])))
       = Inr (jsIndex (waypointCollection legBikkr) 0)
   \<and> currentWaypoint (snd (nextWaypoint FatalAssertion (arrivalFms [legCowby, legBikkr])))
       = Inr (jsIndex (waypointCollection legBikkr) 0)
   \<and> jsIndex (waypointCollection legBikkr) 0 = Some (mkWaypoint ''bikkr'' [3, 4] (-1))
   \<and> getNextWaypointPosition (arrivalFms [legCowby, legBikkr]) = Inl undefinedRead"
  by (simp add: nextWaypoint_def moveToNextLeg_def moveToNextWaypointInLeg_def
      currentWaypoint_def currentLeg_def jsIndex_def leg_defs arrivalFms_def exampleFms_def
      legCowby_def legBikkr_def getNextWaypointPosition_def hasNextWaypoint_def isNil_def)


section \<open>Construction and the route string\<close>

text \<open>
  Claim C9. The constructor fails with its own \<open>TypeError\<close> (\<open>InvalidInitError\<close> in the
  spec) exactly when the payload is not an object or is empty. With a non-empty
  object it does not raise this error: what can still fail is the parsing of the
  route (\<open>MalformedRouteError\<close>) and the lookup of a leg (\<open>LookupError\<close>).
\<close>

theorem constructor_invalid_init:
  "Fms_constructor toLowerCase mc resolve props rwy td nav = Inl invalidInitProps
     \<longleftrightarrow> (\<not> isObject props \<or> isEmpty props)"
proof (cases "\<not> isObject props \<or> isEmpty props")
  case True
  then show ?thesis by (simp add: Fms_constructor_def)
next
  case False
  then have "Fms_constructor toLowerCase mc resolve props rwy td nav \<noteq> Inl invalidInitProps"
    by (auto simp: Fms_constructor_def invalidInitProps_def dest!: Fms_init_Inl)
  with False show ?thesis by simp
qed

theorem constructor_invalid_init_witness:
  "Fms_constructor asciiToLowerCase exampleNewModeController exampleResolve JsUndefined
       ''19l'' exampleType () = Inl invalidInitProps
   \<and> Fms_constructor asciiToLowerCase exampleNewModeController exampleResolve (JsObject [])
       ''19l'' exampleType () = Inl invalidInitProps
   \<and> Fms_constructor asciiToLowerCase exampleNewModeController exampleResolve
       (examplePayload ''cowby..bikkr'') ''19l'' exampleType () \<noteq> Inl invalidInitProps
   \<and> Fms_constructor asciiToLowerCase exampleNewModeController exampleResolve
       (JsObject [(''category'', JsString ''arrival'')]) ''19l'' exampleType ()
       \<noteq> Inl invalidInitProps"
  using
    constructor_invalid_init [of asciiToLowerCase exampleNewModeController exampleResolve
      JsUndefined "''19l''" exampleType "()"]
    constructor_invalid_init [of asciiToLowerCase exampleNewModeController exampleResolve
      "JsObject []" "''19l''" exampleType "()"]
    constructor_invalid_init [of asciiToLowerCase exampleNewModeController exampleResolve
      "examplePayload ''cowby..bikkr''" "''19l''" exampleType "()"]
    constructor_invalid_init [of asciiToLowerCase exampleNewModeController exampleResolve
      "JsObject [(''category'', JsString ''arrival'')]" "''19l''" exampleType "()"]
  by (simp add: examplePayload_def)




end
